theory Spec2Isabelle
  imports Main "HOL-Library.Sublist"
begin

section \<open>Python text values\<close>

text \<open>
  A Python \<open>str\<close> is a sequence of Unicode code points, so text is a list of code points
  (natural numbers). \<open>ucs\<close> turns an ASCII literal into that form; a quote is written as
  the code point 39, a line feed as 10 and the em dash of \<open>check_availability\<close> as 8212.
\<close>

type_synonym pystr = "nat list"

definition ucs :: "string \<Rightarrow> pystr" where
  "ucs s = map of_char s"

text \<open>\<open>str.isspace\<close> for one code point: the white space table of CPython 3.\<close>

definition isspace :: "nat \<Rightarrow> bool" where
  "isspace c =
     ((9 \<le> c \<and> c \<le> 13) \<or> (28 \<le> c \<and> c \<le> 32) \<or> c = 133 \<or> c = 160 \<or> c = 5760 \<or>
      (8192 \<le> c \<and> c \<le> 8202) \<or> c = 8232 \<or> c = 8233 \<or> c = 8239 \<or> c = 8287 \<or>
      c = 12288)"

text \<open>\<open>s.strip()\<close>: white space is removed at both ends.\<close>

definition str_strip :: "pystr \<Rightarrow> pystr" where
  "str_strip s = rev (dropWhile isspace (rev (dropWhile isspace s)))"

definition ascii_lower :: "nat \<Rightarrow> nat" where
  "ascii_lower c = (if 65 \<le> c \<and> c \<le> 90 then c + 32 else c)"

text \<open>
  \<open>s.lower()\<close>. On text made of ASCII code points only, Python maps \<open>A\<close>..\<open>Z\<close> to
  \<open>a\<close>..\<open>z\<close> and keeps everything else. For text holding a code point beyond ASCII the result
  comes from the Unicode case tables of the Python runtime, which are no part of the
  program: that mapping is the parameter \<open>ulower\<close>, left arbitrary.
\<close>

definition str_lower :: "(pystr \<Rightarrow> pystr) \<Rightarrow> pystr \<Rightarrow> pystr" where
  "str_lower ulower s = (if list_all (\<lambda>c. c < 128) s then map ascii_lower s else ulower s)"

text \<open>\<open>sep.join(xs)\<close>.\<close>

fun str_join :: "pystr \<Rightarrow> pystr list \<Rightarrow> pystr" where
  "str_join sep [] = []"
| "str_join sep [x] = x"
| "str_join sep (x # y # ys) = x @ sep @ str_join sep (y # ys)"

text \<open>\<open>str(n)\<close> for an integer, as an f-string field formats it.\<close>

fun digits :: "nat \<Rightarrow> pystr" where
  "digits n = (if n < 10 then [48 + n] else digits (n div 10) @ [48 + n mod 10])"

declare digits.simps [simp del]

definition str_of_int :: "int \<Rightarrow> pystr" where
  "str_of_int i = (if i < 0 then 45 # digits (nat (- i)) else digits (nat i))"

text \<open>Reading a decimal numeral back, to say what \<open>digits\<close> writes.\<close>

definition decimal_value :: "pystr \<Rightarrow> nat" where
  "decimal_value ds = foldr (\<lambda>d a. (d - 48) + 10 * a) (rev ds) 0"


section \<open>Data model\<close>

record UserContext =
  name :: pystr
  member_id :: "pystr option"

text \<open>\<open>RunContextWrapper.context\<close>; the field may hold \<open>None\<close>.\<close>

record RunContextWrapper =
  context' :: "UserContext option"

text \<open>
  The objects a tool handler can reach: the two module level dictionaries, in insertion
  order, and the wrapper object that the runner hands to a handler as \<open>ctx\<close>. A handler
  takes this state and returns it, so that a write would be visible in the result.
\<close>

record py_state =
  BOOK_DB :: "(pystr \<times> int) list"
  MEMBERS :: "(pystr \<times> pystr) list"
  ctx :: RunContextWrapper

definition BOOK_DB_literal :: "(pystr \<times> int) list" where
  "BOOK_DB_literal =
     [(ucs ''Clean Code'', 2),
      (ucs ''Atomic Habits'', 5),
      (ucs ''The Pragmatic Programmer'', 0),
      (ucs ''Deep Work'', 1),
      (ucs ''Harry Potter and the Sorcerer'' @ [39] @ ucs ''s Stone'', 3)]"

definition MEMBERS_literal :: "(pystr \<times> pystr) list" where
  "MEMBERS_literal =
     [(ucs ''M001'', ucs ''Muhammad Annas''),
      (ucs ''M002'', ucs ''Ali Khan'')]"

definition module_state :: "RunContextWrapper \<Rightarrow> py_state" where
  "module_state w = \<lparr>BOOK_DB = BOOK_DB_literal, MEMBERS = MEMBERS_literal, ctx = w\<rparr>"


section \<open>Tools\<close>

definition search_book :: "(pystr \<Rightarrow> pystr) \<Rightarrow> pystr \<Rightarrow> py_state \<Rightarrow> pystr \<times> py_state" where
  "search_book ulower query s =
     (let q = str_lower ulower (str_strip query);
          matches = filter (\<lambda>title. sublist q (str_lower ulower title)) (map fst (BOOK_DB s))
      in if matches = []
         then (ucs ''No books found matching '' @ [39] @ query @ [39] @ ucs ''.'', s)
         else (ucs ''Found: '' @ str_join (ucs '', '') matches, s))"

text \<open>
  \<open>check_availability(ctx, book_title)\<close>: \<open>ctx\<close> is the wrapper object of the state.
  \<open>not user_ctx\<close> holds for \<open>None\<close>, \<open>not user_ctx.member_id\<close> for \<open>None\<close> and for the empty
  text.
\<close>

definition check_availability :: "pystr \<Rightarrow> py_state \<Rightarrow> pystr \<times> py_state" where
  "check_availability book_title s =
     (case context' (ctx s) of
        None \<Rightarrow>
          (ucs ''Access denied: availability check is for registered members only.'', s)
      | Some user_ctx \<Rightarrow>
          (case member_id user_ctx of
             None \<Rightarrow>
               (ucs ''Access denied: availability check is for registered members only.'', s)
           | Some m \<Rightarrow>
               if m = [] \<or> m \<notin> set (map fst (MEMBERS s))
               then (ucs ''Access denied: availability check is for registered members only.'', s)
               else
                 (case map_of (BOOK_DB s) book_title of
                    None \<Rightarrow>
                      (ucs ''Book '' @ [39] @ book_title @ [39] @ ucs '' not found in catalog.'', s)
                  | Some copies \<Rightarrow>
                      if copies = 0
                      then ([39] @ book_title @ [39] @
                            ucs '' is currently not available (0 copies).'', s)
                      else ([39] @ book_title @ [39] @ ucs '' '' @ [8212] @ ucs '' '' @
                            str_of_int copies @ ucs '' copies available.'', s))))"

definition get_library_timings :: "py_state \<Rightarrow> pystr \<times> py_state" where
  "get_library_timings s =
     (ucs ''Library timings: Mon-Fri 09:00-18:00; Sat 10:00-14:00; Sun closed.'', s)"



section \<open>Guardrail\<close>

text \<open>
  What evaluating a Python expression can raise. \<open>except Exception\<close> catches
  \<open>AttributeError\<close> and every other subclass of \<open>Exception\<close>; an exception that derives
  from \<open>BaseException\<close> only (a cancellation, a keyboard interrupt) passes through it.
\<close>

datatype py_raise = AttributeError | ExceptionSubclass string | BaseExceptionOnly string

definition caught_by_except_Exception :: "py_raise \<Rightarrow> bool" where
  "caught_by_except_Exception e = (case e of BaseExceptionOnly _ \<Rightarrow> False | _ \<Rightarrow> True)"

text \<open>
  The values a run's \<open>final_output\<close> can hold: \<open>None\<close>, a boolean, an integer, text, or an
  object with named attributes. Reading an attribute of an object gives its value or
  raises (a property whose getter raises).
\<close>

datatype pyval =
    PyNone
  | PyBool bool
  | PyInt int
  | PyStr pystr
  | PyObject "(string \<times> (py_raise + pyval)) list"

text \<open>\<open>bool(v)\<close>: Python truthiness. An object without \<open>__bool__\<close> and \<open>__len__\<close> is true.\<close>

fun bool_of :: "pyval \<Rightarrow> bool" where
  "bool_of PyNone = False"
| "bool_of (PyBool b) = b"
| "bool_of (PyInt i) = (i \<noteq> 0)"
| "bool_of (PyStr t) = (t \<noteq> [])"
| "bool_of (PyObject attrs) = True"

text \<open>
  \<open>getattr(obj, attr, default)\<close>, for an attribute name that the built-in types do not
  have: the default replaces a missing attribute and an \<open>AttributeError\<close> of the getter,
  any other exception goes to the caller.
\<close>

definition getattr :: "pyval \<Rightarrow> string \<Rightarrow> pyval \<Rightarrow> py_raise + pyval" where
  "getattr obj attr dflt =
     (case obj of
        PyObject attrs \<Rightarrow>
          (case map_of attrs attr of
             None \<Rightarrow> Inr dflt
           | Some (Inr v) \<Rightarrow> Inr v
           | Some (Inl e) \<Rightarrow> (case e of AttributeError \<Rightarrow> Inr dflt | _ \<Rightarrow> Inl e))
      | _ \<Rightarrow> Inr dflt)"

text \<open>An instance of the pydantic class \<open>GuardrailOutput\<close>.\<close>

definition GuardrailOutput :: "bool \<Rightarrow> pystr option \<Rightarrow> pyval" where
  "GuardrailOutput is_library_query reason =
     PyObject [(''is_library_query'', Inr (PyBool is_library_query)),
               (''reason'', Inr (case reason of None \<Rightarrow> PyNone | Some r \<Rightarrow> PyStr r))]"

record RunResult =
  final_output :: pyval

record GuardrailFunctionOutput =
  output_info :: pyval
  tripwire_triggered :: bool

text \<open>
  \<open>library_input_guardrail(ctx, agent, input)\<close>. The classifier run
  \<open>Runner.run(guardrail_agent, input, context=ctx.context)\<close> belongs to the agents library
  and calls the model; its outcome is the parameter \<open>Runner_run\<close>, which returns a run
  result or raises. The call stands before the \<open>try\<close>, so what it raises leaves the
  guardrail. Inside the \<open>try\<close> the attribute is read and turned into a boolean; an
  exception there that \<open>except Exception\<close> catches sets \<open>is_lib = True\<close>.
\<close>

definition library_input_guardrail ::
  "('i \<Rightarrow> UserContext option \<Rightarrow> py_raise + RunResult) \<Rightarrow>
   RunContextWrapper \<Rightarrow> 'agent \<Rightarrow> 'i \<Rightarrow> py_raise + GuardrailFunctionOutput" where
  "library_input_guardrail Runner_run wrapper agent input =
     (case Runner_run input (context' wrapper) of
        Inl e \<Rightarrow> Inl e
      | Inr guard_result \<Rightarrow>
          (case (case getattr (final_output guard_result) ''is_library_query'' (PyBool False) of
                   Inr v \<Rightarrow> Inr (bool_of v)
                 | Inl e \<Rightarrow> if caught_by_except_Exception e then Inr True else Inl e) of
             Inl e \<Rightarrow> Inl e
           | Inr is_lib \<Rightarrow>
               Inr \<lparr>output_info = final_output guard_result,
                    tripwire_triggered = (\<not> is_lib)\<rparr>))"


section \<open>Dynamic instructions\<close>

text \<open>The part of the instruction text after the name; it is the same for every caller.\<close>

definition instructions_body :: pystr where
  "instructions_body =
     ucs ''. You are a helpful Library Assistant.'' @ [10] @
     ucs ''- Use search_book to find books.'' @ [10] @
     ucs ''- Use check_availability only for registered members.'' @ [10] @
     ucs ''- Use get_library_timings for hours.'' @ [10] @
     ucs ''- Refuse politely if it'' @ [39] @ ucs ''s not a library-related query.'' @ [10] @
     ucs ''You may call multiple tools in one query.''"

text \<open>
  \<open>dynamic_instructions(context, agent)\<close>: the wrapper may be \<open>None\<close>, its context may be
  \<open>None\<close>, and an empty name is not truthy; in each of these cases the name stays
  \<open>Library user\<close>.
\<close>

definition dynamic_instructions :: "RunContextWrapper option \<Rightarrow> 'agent \<Rightarrow> pystr" where
  "dynamic_instructions wrapper agent =
     (let nm = (case wrapper of
                  None \<Rightarrow> ucs ''Library user''
                | Some w \<Rightarrow>
                    (case context' w of
                       None \<Rightarrow> ucs ''Library user''
                     | Some u \<Rightarrow> if name u \<noteq> [] then name u else ucs ''Library user''))
      in ucs ''Hello '' @ nm @ instructions_body)"



section \<open>Example callers\<close>

text \<open>
  The contexts that the module's own test run builds: a registered member and a guest
  without membership.
\<close>

definition user1 :: UserContext where
  "user1 = \<lparr>name = ucs ''Muhammad Annas'', member_id = Some (ucs ''M001'')\<rparr>"

definition guest :: UserContext where
  "guest = \<lparr>name = ucs ''Guest User'', member_id = None\<rparr>"



section \<open>Text helpers\<close>

lemma digits_decimal: "decimal_value (digits n) = n"
proof (induction n rule: digits.induct)
  case (1 n)
  show ?case
  proof (cases "n < 10")
    case True
    then show ?thesis
      by (simp add: digits.simps [of n] decimal_value_def)
  next
    case False
    with "1" have "decimal_value (digits (n div 10)) = n div 10"
      by simp
    with False show ?thesis
      by (simp add: digits.simps [of n] decimal_value_def)
  qed
qed

lemma digits_not_Nil: "digits n \<noteq> []"
  by (subst digits.simps) simp

lemma digits_are_digits: "list_all (\<lambda>c. 48 \<le> c \<and> c \<le> 57) (digits n)"
proof (induction n rule: digits.induct)
  case (1 n)
  show ?case
  proof (cases "n < 10")
    case True
    then show ?thesis by (simp add: digits.simps [of n])
  next
    case False
    with "1" have "list_all (\<lambda>c. 48 \<le> c \<and> c \<le> 57) (digits (n div 10))"
      by simp
    moreover have "n mod 10 \<le> 9"
      by simp
    ultimately show ?thesis
      using False by (simp add: digits.simps [of n])
  qed
qed

lemma digits_no_leading_zero: "0 < n \<Longrightarrow> hd (digits n) \<noteq> 48"
proof (induction n rule: digits.induct)
  case (1 n)
  show ?case
  proof (cases "n < 10")
    case True
    with "1.prems" show ?thesis by (simp add: digits.simps [of n])
  next
    case False
    then have "0 < n div 10"
      by simp
    with "1.IH" False have "hd (digits (n div 10)) \<noteq> 48"
      by simp
    with False show ?thesis
      by (simp add: digits.simps [of n] digits_not_Nil)
  qed
qed

text \<open>
  For a positive integer \<open>str_of_int\<close> writes its decimal numeral: digits only, no leading
  zero, and the value read back is the integer.
\<close>

lemma str_of_int_positive:
  assumes "0 < n"
  shows "list_all (\<lambda>c. 48 \<le> c \<and> c \<le> 57) (str_of_int n)"
    and "hd (str_of_int n) \<noteq> 48"
    and "int (decimal_value (str_of_int n)) = n"
  using assms
  by (simp_all add: str_of_int_def digits_are_digits digits_no_leading_zero digits_decimal)

lemma str_of_int_samples:
  "str_of_int 1 = ucs ''1''"
  "str_of_int 2 = ucs ''2''"
  "str_of_int 3 = ucs ''3''"
  "str_of_int 5 = ucs ''5''"
  "str_of_int 120 = ucs ''120''"
  "str_of_int (- 7) = ucs ''-7''"
  by (simp_all add: str_of_int_def digits.simps ucs_def)

lemma decimal_value_sample: "decimal_value (ucs ''120'') = 120"
  by (simp add: decimal_value_def ucs_def)

text \<open>Values of the module's tables, and the effect of trimming white space.\<close>

lemma map_of_BOOK_DB_literal:
  "map_of BOOK_DB_literal (ucs ''Clean Code'') = Some 2"
  "map_of BOOK_DB_literal (ucs ''Atomic Habits'') = Some 5"
  "map_of BOOK_DB_literal (ucs ''The Pragmatic Programmer'') = Some 0"
  "map_of BOOK_DB_literal (ucs ''Deep Work'') = Some 1"
  "map_of BOOK_DB_literal (ucs ''Harry Potter and the Sorcerer'' @ [39] @ ucs ''s Stone'') =
     Some 3"
  "map_of BOOK_DB_literal (ucs ''clean code'') = None"
  by (simp_all add: BOOK_DB_literal_def ucs_def)


lemma user1_registered:
  "context' (ctx (module_state \<lparr>context' = Some user1\<rparr>)) = Some user1"
  "member_id user1 = Some (ucs ''M001'')"
  "ucs ''M001'' \<noteq> []"
  "ucs ''M001'' \<in> fst ` set (MEMBERS (module_state \<lparr>context' = Some user1\<rparr>))"
  by (simp_all add: module_state_def user1_def MEMBERS_literal_def ucs_def)

lemma BOOK_DB_module_state: "BOOK_DB (module_state w) = BOOK_DB_literal"
  by (simp add: module_state_def)

lemma str_strip_whitespace:
  assumes "list_all isspace query"
  shows "str_strip query = []"
proof -
  from assms have "dropWhile isspace query = []"
    by (induction query) simp_all
  then show ?thesis
    by (simp only: str_strip_def rev.simps dropWhile.simps)
qed

lemma str_lower_Nil: "str_lower ulower [] = []"
  by (simp add: str_lower_def)

lemma search_book_whitespace:
  assumes "list_all isspace query" and "BOOK_DB s \<noteq> []"
  shows "search_book ulower query s =
           (ucs ''Found: '' @ str_join (ucs '', '') (map fst (BOOK_DB s)), s)"
  using assms by (simp add: search_book_def str_strip_whitespace str_lower_Nil)

lemma str_join_BOOK_DB_literal:
  "ucs ''Found: '' @ str_join (ucs '', '') (map fst BOOK_DB_literal) =
   ucs ''Found: Clean Code, Atomic Habits, The Pragmatic Programmer, Deep Work, '' @
   ucs ''Harry Potter and the Sorcerer'' @ [39] @ ucs ''s Stone''"
  by (simp add: BOOK_DB_literal_def ucs_def)

lemma BOOK_DB_literal_not_Nil: "BOOK_DB_literal \<noteq> []"
  by (simp add: BOOK_DB_literal_def)

lemma whitespace_sample: "list_all isspace [32, 9, 10, 160, 8195]" "list_all isspace []"
  by (simp_all add: isspace_def)

text \<open>Sample runs of \<open>search_book\<close> on the module's catalog.\<close>

lemma search_book_clean_code:
  "search_book ulower (ucs ''clean code'') (module_state w) = (ucs ''Found: Clean Code'', module_state w)"
  by (simp add: search_book_def str_lower_def str_strip_def isspace_def ascii_lower_def
      module_state_def BOOK_DB_literal_def ucs_def sublist_code)

lemma search_book_partial:
  "search_book ulower (ucs ''  Pragmatic '') (module_state w) =
     (ucs ''Found: The Pragmatic Programmer'', module_state w)"
  by (simp add: search_book_def str_lower_def str_strip_def isspace_def ascii_lower_def
      module_state_def BOOK_DB_literal_def ucs_def sublist_code)

lemma search_book_two:
  "search_book ulower (ucs ''HA'') (module_state w) =
     (ucs ''Found: Atomic Habits, Harry Potter and the Sorcerer'' @ [39] @ ucs ''s Stone'', module_state w)"
  by (simp add: search_book_def str_lower_def str_strip_def isspace_def ascii_lower_def
      module_state_def BOOK_DB_literal_def ucs_def sublist_code)

lemma search_book_none:
  "search_book ulower (ucs ''Dune'') (module_state w) =
     (ucs ''No books found matching '' @ [39] @ ucs ''Dune'' @ [39] @ ucs ''.'', module_state w)"
  by (simp add: search_book_def str_lower_def str_strip_def isspace_def ascii_lower_def
      module_state_def BOOK_DB_literal_def ucs_def sublist_code)


section \<open>The membership gate of \<open>check_availability\<close>\<close>

lemma denied_absent_context:
  "context' (ctx s) = None \<Longrightarrow>
   check_availability t s =
     (ucs ''Access denied: availability check is for registered members only.'', s)"
  by (simp add: check_availability_def)

lemma denied_no_member_id:
  "context' (ctx s) = Some u \<Longrightarrow> member_id u = None \<Longrightarrow>
   check_availability t s =
     (ucs ''Access denied: availability check is for registered members only.'', s)"
  by (simp add: check_availability_def)

lemma denied_empty_member_id:
  "context' (ctx s) = Some u \<Longrightarrow> member_id u = Some [] \<Longrightarrow>
   check_availability t s =
     (ucs ''Access denied: availability check is for registered members only.'', s)"
  by (simp add: check_availability_def)

lemma denied_unregistered:
  "context' (ctx s) = Some u \<Longrightarrow> member_id u = Some m \<Longrightarrow> m \<notin> fst ` set (MEMBERS s) \<Longrightarrow>
   check_availability t s =
     (ucs ''Access denied: availability check is for registered members only.'', s)"
  by (simp add: check_availability_def)

lemma member_branch:
  assumes "context' (ctx s) = Some u" "member_id u = Some m" "m \<noteq> []"
    "m \<in> fst ` set (MEMBERS s)"
  shows "check_availability t s =
     (case map_of (BOOK_DB s) t of
        None \<Rightarrow> (ucs ''Book '' @ [39] @ t @ [39] @ ucs '' not found in catalog.'', s)
      | Some copies \<Rightarrow>
          if copies = 0
          then ([39] @ t @ [39] @ ucs '' is currently not available (0 copies).'', s)
          else ([39] @ t @ [39] @ ucs '' '' @ [8212] @ ucs '' '' @
                str_of_int copies @ ucs '' copies available.'', s))"
  using assms by (simp add: check_availability_def)

text \<open>
  Claim C1. Whenever the context is absent, carries no \<open>member_id\<close> (\<open>None\<close> or the empty
  text), or carries a \<open>member_id\<close> that is no key of \<open>MEMBERS\<close>, \<open>check_availability\<close>
  returns the fixed denial text for every \<open>book_title\<close>. The test stands inside the handler,
  and the answer is the same whatever the catalog holds: with \<open>BOOK_DB\<close> replaced by any
  catalog \<open>db\<close> the result is still the denial, so the catalog is not consulted. The state
  comes back as it went in.
\<close>

theorem check_availability_denies_non_members:
  assumes "context' (ctx s) = None \<or>
           (\<exists>u. context' (ctx s) = Some u \<and>
                (member_id u = None \<or>
                 (\<exists>m. member_id u = Some m \<and> (m = [] \<or> m \<notin> fst ` set (MEMBERS s)))))"
  shows "check_availability book_title (s\<lparr>BOOK_DB := db\<rparr>) =
           (ucs ''Access denied: availability check is for registered members only.'',
            s\<lparr>BOOK_DB := db\<rparr>)"
proof -
  define s' where "s' = s\<lparr>BOOK_DB := db\<rparr>"
  have same: "context' (ctx s) = context' (ctx s')" "MEMBERS s = MEMBERS s'"
    by (simp_all add: s'_def)
  from assms consider
      (absent) "context' (ctx s') = None"
    | (anonymous) u where "context' (ctx s') = Some u" "member_id u = None"
    | (blank) u where "context' (ctx s') = Some u" "member_id u = Some []"
    | (stranger) u m where "context' (ctx s') = Some u" "member_id u = Some m"
        "m \<notin> fst ` set (MEMBERS s')"
    unfolding same by auto
  then have "check_availability book_title s' =
    (ucs ''Access denied: availability check is for registered members only.'', s')"
  proof cases
    case absent
    then show ?thesis by (rule denied_absent_context)
  next
    case anonymous
    then show ?thesis by (rule denied_no_member_id)
  next
    case blank
    then show ?thesis by (rule denied_empty_member_id)
  next
    case stranger
    then show ?thesis by (rule denied_unregistered)
  qed
  then show ?thesis by (simp only: s'_def)
qed

text \<open>
  The guest of the module's test run asks for a title that exists; the answer is the
  denial, here with the catalog emptied.
\<close>

theorem check_availability_denies_non_members_witness:
  "member_id guest = None \<and>
   check_availability (ucs ''The Pragmatic Programmer'')
     ((module_state \<lparr>context' = Some guest\<rparr>)\<lparr>BOOK_DB := []\<rparr>) =
   (ucs ''Access denied: availability check is for registered members only.'',
    (module_state \<lparr>context' = Some guest\<rparr>)\<lparr>BOOK_DB := []\<rparr>)"
proof -
  let ?s = "module_state \<lparr>context' = Some guest\<rparr>"
  have none: "member_id guest = None"
    by (simp add: guest_def)
  then have "context' (ctx ?s) = None \<or>
        (\<exists>u. context' (ctx ?s) = Some u \<and>
             (member_id u = None \<or>
              (\<exists>m. member_id u = Some m \<and> (m = [] \<or> m \<notin> fst ` set (MEMBERS ?s)))))"
    by (simp add: module_state_def)
  then have "check_availability (ucs ''The Pragmatic Programmer'') (?s\<lparr>BOOK_DB := []\<rparr>) =
    (ucs ''Access denied: availability check is for registered members only.'',
     ?s\<lparr>BOOK_DB := []\<rparr>)"
    by (rule check_availability_denies_non_members)
  with none show ?thesis by (intro conjI)
qed


section \<open>The answers of \<open>check_availability\<close> for a member\<close>

lemma not_found_differs_unavailable:
  "ucs ''Book '' @ [39] @ t @ [39] @ ucs '' not found in catalog.'' \<noteq>
   [39] @ t' @ [39] @ ucs '' is currently not available (0 copies).''"
  by (simp add: ucs_def)

lemma not_found_differs_available:
  "ucs ''Book '' @ [39] @ t @ [39] @ ucs '' not found in catalog.'' \<noteq>
   [39] @ t' @ [39] @ ucs '' '' @ [8212] @ ucs '' '' @ str_of_int n @ ucs '' copies available.''"
  by (simp add: ucs_def)

lemma unavailable_differs_available:
  "[39] @ t @ [39] @ ucs '' is currently not available (0 copies).'' \<noteq>
   [39] @ t' @ [39] @ ucs '' '' @ [8212] @ ucs '' '' @ str_of_int n @ ucs '' copies available.''"
proof
  assume "[39] @ t @ [39] @ ucs '' is currently not available (0 copies).'' =
   [39] @ t' @ [39] @ ucs '' '' @ [8212] @ ucs '' '' @ str_of_int n @ ucs '' copies available.''"
  then have "rev ([39] @ t @ [39] @ ucs '' is currently not available (0 copies).'') =
   rev ([39] @ t' @ [39] @ ucs '' '' @ [8212] @ ucs '' '' @ str_of_int n @ ucs '' copies available.'')"
    by (rule arg_cong)
  then show False
    by (simp add: ucs_def)
qed

text \<open>
  Claim C4. For a context whose \<open>member_id\<close> is a key of \<open>MEMBERS\<close> (and not empty: an
  empty \<open>member_id\<close> is never truthy), \<open>check_availability\<close> answers in three ways: a title
  that is no key of the catalog gives the not-found text, a title stored with 0 copies
  gives the not-available text, and a title stored with \<open>n > 0\<close> copies gives the text that
  reports \<open>n\<close>: the number field is the decimal numeral of \<open>n\<close>, made of digits only, without
  a leading zero, and reading it back gives \<open>n\<close>. The three texts are pairwise different,
  whatever the titles and the number are, so not found and not available cannot be
  mistaken for one another.
\<close>

theorem check_availability_three_outcomes:
  assumes "context' (ctx s) = Some u" and "member_id u = Some m" and "m \<noteq> []"
    and "m \<in> fst ` set (MEMBERS s)"
  shows "(map_of (BOOK_DB s) t = None \<longrightarrow>
            check_availability t s =
              (ucs ''Book '' @ [39] @ t @ [39] @ ucs '' not found in catalog.'', s)) \<and>
         (map_of (BOOK_DB s) t = Some 0 \<longrightarrow>
            check_availability t s =
              ([39] @ t @ [39] @ ucs '' is currently not available (0 copies).'', s)) \<and>
         (\<forall>n. 0 < n \<and> map_of (BOOK_DB s) t = Some n \<longrightarrow>
            check_availability t s =
              ([39] @ t @ [39] @ ucs '' '' @ [8212] @ ucs '' '' @ str_of_int n @
               ucs '' copies available.'', s) \<and>
            list_all (\<lambda>c. 48 \<le> c \<and> c \<le> 57) (str_of_int n) \<and>
            hd (str_of_int n) \<noteq> 48 \<and>
            int (decimal_value (str_of_int n)) = n) \<and>
         ucs ''Book '' @ [39] @ t @ [39] @ ucs '' not found in catalog.'' \<noteq>
           [39] @ t' @ [39] @ ucs '' is currently not available (0 copies).'' \<and>
         ucs ''Book '' @ [39] @ t @ [39] @ ucs '' not found in catalog.'' \<noteq>
           [39] @ t' @ [39] @ ucs '' '' @ [8212] @ ucs '' '' @ str_of_int n' @
           ucs '' copies available.'' \<and>
         [39] @ t @ [39] @ ucs '' is currently not available (0 copies).'' \<noteq>
           [39] @ t' @ [39] @ ucs '' '' @ [8212] @ ucs '' '' @ str_of_int n' @
           ucs '' copies available.''"
proof -
  note branch = member_branch [OF assms, of t]
  have absent: "map_of (BOOK_DB s) t = None \<longrightarrow>
            check_availability t s =
              (ucs ''Book '' @ [39] @ t @ [39] @ ucs '' not found in catalog.'', s)"
    using branch by simp
  have zero: "map_of (BOOK_DB s) t = Some 0 \<longrightarrow>
            check_availability t s =
              ([39] @ t @ [39] @ ucs '' is currently not available (0 copies).'', s)"
    using branch by simp
  have some: "\<forall>n. 0 < n \<and> map_of (BOOK_DB s) t = Some n \<longrightarrow>
            check_availability t s =
              ([39] @ t @ [39] @ ucs '' '' @ [8212] @ ucs '' '' @ str_of_int n @
               ucs '' copies available.'', s) \<and>
            list_all (\<lambda>c. 48 \<le> c \<and> c \<le> 57) (str_of_int n) \<and>
            hd (str_of_int n) \<noteq> 48 \<and>
            int (decimal_value (str_of_int n)) = n"
  proof (intro allI impI)
    fix n :: int
    assume n: "0 < n \<and> map_of (BOOK_DB s) t = Some n"
    with branch have "check_availability t s =
        ([39] @ t @ [39] @ ucs '' '' @ [8212] @ ucs '' '' @ str_of_int n @
         ucs '' copies available.'', s)"
      by simp
    moreover from n have "list_all (\<lambda>c. 48 \<le> c \<and> c \<le> 57) (str_of_int n)"
      and "hd (str_of_int n) \<noteq> 48" and "int (decimal_value (str_of_int n)) = n"
      by (simp_all add: str_of_int_positive)
    ultimately show "check_availability t s =
              ([39] @ t @ [39] @ ucs '' '' @ [8212] @ ucs '' '' @ str_of_int n @
               ucs '' copies available.'', s) \<and>
            list_all (\<lambda>c. 48 \<le> c \<and> c \<le> 57) (str_of_int n) \<and>
            hd (str_of_int n) \<noteq> 48 \<and>
            int (decimal_value (str_of_int n)) = n"
      by (intro conjI)
  qed
  from absent zero some not_found_differs_unavailable [of t t']
    not_found_differs_available [of t t' n'] unavailable_differs_available [of t t' n']
  show ?thesis by (intro conjI)
qed

text \<open>
  The registered member of the module's test run asks for every title of the catalog and
  for one that is no key: each stored number appears as its own numeral.
\<close>

theorem check_availability_three_outcomes_witness:
  "check_availability (ucs ''clean code'') (module_state \<lparr>context' = Some user1\<rparr>) =
     (ucs ''Book '' @ [39] @ ucs ''clean code'' @ [39] @ ucs '' not found in catalog.'',
      module_state \<lparr>context' = Some user1\<rparr>) \<and>
   check_availability (ucs ''The Pragmatic Programmer'') (module_state \<lparr>context' = Some user1\<rparr>) =
     ([39] @ ucs ''The Pragmatic Programmer'' @ [39] @
      ucs '' is currently not available (0 copies).'',
      module_state \<lparr>context' = Some user1\<rparr>) \<and>
   check_availability (ucs ''Clean Code'') (module_state \<lparr>context' = Some user1\<rparr>) =
     ([39] @ ucs ''Clean Code'' @ [39] @ ucs '' '' @ [8212] @ ucs '' 2 copies available.'',
      module_state \<lparr>context' = Some user1\<rparr>) \<and>
   check_availability (ucs ''Atomic Habits'') (module_state \<lparr>context' = Some user1\<rparr>) =
     ([39] @ ucs ''Atomic Habits'' @ [39] @ ucs '' '' @ [8212] @ ucs '' 5 copies available.'',
      module_state \<lparr>context' = Some user1\<rparr>) \<and>
   check_availability (ucs ''Deep Work'') (module_state \<lparr>context' = Some user1\<rparr>) =
     ([39] @ ucs ''Deep Work'' @ [39] @ ucs '' '' @ [8212] @ ucs '' 1 copies available.'',
      module_state \<lparr>context' = Some user1\<rparr>) \<and>
   check_availability (ucs ''Harry Potter and the Sorcerer'' @ [39] @ ucs ''s Stone'')
       (module_state \<lparr>context' = Some user1\<rparr>) =
     ([39] @ ucs ''Harry Potter and the Sorcerer'' @ [39] @ ucs ''s Stone'' @ [39] @ ucs '' '' @
      [8212] @ ucs '' 3 copies available.'',
      module_state \<lparr>context' = Some user1\<rparr>) \<and>
   decimal_value (str_of_int 5) = 5"
proof -
  let ?s = "module_state \<lparr>context' = Some user1\<rparr>"
  let ?potter = "ucs ''Harry Potter and the Sorcerer'' @ [39] @ ucs ''s Stone''"
  note outcomes = check_availability_three_outcomes [OF user1_registered]
  have "check_availability (ucs ''clean code'') ?s =
     (ucs ''Book '' @ [39] @ ucs ''clean code'' @ [39] @ ucs '' not found in catalog.'', ?s)"
    using outcomes [of "ucs ''clean code''"]
    by (simp add: BOOK_DB_module_state map_of_BOOK_DB_literal)
  moreover have "check_availability (ucs ''The Pragmatic Programmer'') ?s =
     ([39] @ ucs ''The Pragmatic Programmer'' @ [39] @
      ucs '' is currently not available (0 copies).'', ?s)"
    using outcomes [of "ucs ''The Pragmatic Programmer''"]
    by (simp add: BOOK_DB_module_state map_of_BOOK_DB_literal)
  moreover have "check_availability (ucs ''Clean Code'') ?s =
     ([39] @ ucs ''Clean Code'' @ [39] @ ucs '' '' @ [8212] @ ucs '' '' @ str_of_int 2 @
      ucs '' copies available.'', ?s)"
    using outcomes [of "ucs ''Clean Code''"]
    by (simp add: BOOK_DB_module_state map_of_BOOK_DB_literal)
  then have "check_availability (ucs ''Clean Code'') ?s =
     ([39] @ ucs ''Clean Code'' @ [39] @ ucs '' '' @ [8212] @ ucs '' 2 copies available.'', ?s)"
    by (simp add: str_of_int_samples ucs_def)
  moreover have five: "check_availability (ucs ''Atomic Habits'') ?s =
     ([39] @ ucs ''Atomic Habits'' @ [39] @ ucs '' '' @ [8212] @ ucs '' '' @ str_of_int 5 @
      ucs '' copies available.'', ?s) \<and> int (decimal_value (str_of_int 5)) = 5"
    using outcomes [of "ucs ''Atomic Habits''"]
    by (simp add: BOOK_DB_module_state map_of_BOOK_DB_literal)
  then have "check_availability (ucs ''Atomic Habits'') ?s =
     ([39] @ ucs ''Atomic Habits'' @ [39] @ ucs '' '' @ [8212] @ ucs '' 5 copies available.'', ?s)"
    by (simp add: str_of_int_samples ucs_def)
  moreover have "check_availability (ucs ''Deep Work'') ?s =
     ([39] @ ucs ''Deep Work'' @ [39] @ ucs '' '' @ [8212] @ ucs '' '' @ str_of_int 1 @
      ucs '' copies available.'', ?s)"
    using outcomes [of "ucs ''Deep Work''"]
    by (simp add: BOOK_DB_module_state map_of_BOOK_DB_literal)
  then have "check_availability (ucs ''Deep Work'') ?s =
     ([39] @ ucs ''Deep Work'' @ [39] @ ucs '' '' @ [8212] @ ucs '' 1 copies available.'', ?s)"
    by (simp add: str_of_int_samples ucs_def)
  moreover have "0 < (3::int) \<and> map_of (BOOK_DB ?s) ?potter = Some 3"
    by (simp add: BOOK_DB_module_state BOOK_DB_literal_def ucs_def)
  with outcomes [of ?potter] have "check_availability ?potter ?s =
     ([39] @ ?potter @ [39] @ ucs '' '' @ [8212] @ ucs '' '' @ str_of_int 3 @
      ucs '' copies available.'', ?s)"
    by blast
  then have "check_availability ?potter ?s =
     ([39] @ ucs ''Harry Potter and the Sorcerer'' @ [39] @ ucs ''s Stone'' @ [39] @ ucs '' '' @
      [8212] @ ucs '' 3 copies available.'', ?s)"
    by (simp add: str_of_int_samples ucs_def)
  moreover from five have "decimal_value (str_of_int 5) = 5"
    by simp
  ultimately show ?thesis by (intro conjI)
qed


section \<open>Exact lookup against substring search\<close>

lemma map_of_absent: "t \<notin> fst ` set db \<Longrightarrow> map_of db t = None"
  by (simp add: map_of_eq_None_iff)

lemma not_found_when_absent:
  assumes "context' (ctx s) = Some u" and "member_id u = Some m" and "m \<noteq> []"
    and "m \<in> fst ` set (MEMBERS s)" and "t \<notin> fst ` set (BOOK_DB s)"
  shows "check_availability t s =
     (ucs ''Book '' @ [39] @ t @ [39] @ ucs '' not found in catalog.'', s)"
  using member_branch [OF assms(1-4), of t] map_of_absent [OF assms(5)] by simp

lemma found_when_present:
  assumes "context' (ctx s) = Some u" and "member_id u = Some m" and "m \<noteq> []"
    and "m \<in> fst ` set (MEMBERS s)" and "t \<in> fst ` set (BOOK_DB s)"
  shows "fst (check_availability t s) \<noteq>
     ucs ''Book '' @ [39] @ t @ [39] @ ucs '' not found in catalog.''"
proof -
  from assms(5) obtain n where n: "map_of (BOOK_DB s) t = Some n"
    by (metis map_of_eq_None_iff not_None_eq)
  show ?thesis
  proof (cases "n = 0")
    case True
    with n member_branch [OF assms(1-4), of t]
    have "fst (check_availability t s) =
      [39] @ t @ [39] @ ucs '' is currently not available (0 copies).''"
      by simp
    with not_found_differs_unavailable [of t t] show ?thesis
      by (simp only: not_sym)
  next
    case False
    with n member_branch [OF assms(1-4), of t]
    have "fst (check_availability t s) =
      [39] @ t @ [39] @ ucs '' '' @ [8212] @ ucs '' '' @ str_of_int n @
      ucs '' copies available.''"
      by simp
    with not_found_differs_available [of t t n] show ?thesis
      by (simp only: not_sym)
  qed
qed

text \<open>
  Claim C9. \<open>check_availability\<close> looks the title up as it is: for a registered member a
  title gets the not-found text exactly when it is not equal to a key of the catalog.
  \<open>search_book\<close> trims the query, lowers it and looks for it inside the lowered titles. So
  \<open>clean code\<close>, which differs from a key in letter case only, and the padded partial
  title \<open>Pragmatic\<close> are both found by \<open>search_book\<close> and reported as not found by
  \<open>check_availability\<close>.
\<close>

theorem check_availability_exact_title_match:
  "(context' (ctx s) = Some u \<and> member_id u = Some m \<and> m \<noteq> [] \<and>
    m \<in> fst ` set (MEMBERS s) \<longrightarrow>
      (book_title \<notin> fst ` set (BOOK_DB s) \<longrightarrow>
         check_availability book_title s =
           (ucs ''Book '' @ [39] @ book_title @ [39] @ ucs '' not found in catalog.'', s)) \<and>
      (book_title \<in> fst ` set (BOOK_DB s) \<longrightarrow>
         fst (check_availability book_title s) \<noteq>
           ucs ''Book '' @ [39] @ book_title @ [39] @ ucs '' not found in catalog.'')) \<and>
   search_book ulower (ucs ''clean code'') (module_state \<lparr>context' = Some user1\<rparr>) =
     (ucs ''Found: Clean Code'', module_state \<lparr>context' = Some user1\<rparr>) \<and>
   check_availability (ucs ''clean code'') (module_state \<lparr>context' = Some user1\<rparr>) =
     (ucs ''Book '' @ [39] @ ucs ''clean code'' @ [39] @ ucs '' not found in catalog.'',
      module_state \<lparr>context' = Some user1\<rparr>) \<and>
   search_book ulower (ucs ''  Pragmatic '') (module_state \<lparr>context' = Some user1\<rparr>) =
     (ucs ''Found: The Pragmatic Programmer'', module_state \<lparr>context' = Some user1\<rparr>) \<and>
   check_availability (ucs ''  Pragmatic '') (module_state \<lparr>context' = Some user1\<rparr>) =
     (ucs ''Book '' @ [39] @ ucs ''  Pragmatic '' @ [39] @ ucs '' not found in catalog.'',
      module_state \<lparr>context' = Some user1\<rparr>)"
proof -
  let ?s1 = "module_state \<lparr>context' = Some user1\<rparr>"
  have general: "context' (ctx s) = Some u \<and> member_id u = Some m \<and> m \<noteq> [] \<and>
    m \<in> fst ` set (MEMBERS s) \<longrightarrow>
      (book_title \<notin> fst ` set (BOOK_DB s) \<longrightarrow>
         check_availability book_title s =
           (ucs ''Book '' @ [39] @ book_title @ [39] @ ucs '' not found in catalog.'', s)) \<and>
      (book_title \<in> fst ` set (BOOK_DB s) \<longrightarrow>
         fst (check_availability book_title s) \<noteq>
           ucs ''Book '' @ [39] @ book_title @ [39] @ ucs '' not found in catalog.'')"
    using not_found_when_absent [of s u m book_title] found_when_present [of s u m book_title]
    by blast
  have absent1: "ucs ''clean code'' \<notin> fst ` set (BOOK_DB ?s1)"
    by (simp add: BOOK_DB_module_state BOOK_DB_literal_def ucs_def)
  have absent2: "ucs ''  Pragmatic '' \<notin> fst ` set (BOOK_DB ?s1)"
    by (simp add: BOOK_DB_module_state BOOK_DB_literal_def ucs_def)
  note nf1 = not_found_when_absent [OF user1_registered absent1]
  note nf2 = not_found_when_absent [OF user1_registered absent2]
  from general search_book_clean_code [of ulower] nf1 search_book_partial [of ulower] nf2
  show ?thesis by (intro conjI)
qed

theorem check_availability_exact_title_match_witness:
  "ucs ''CLEAN CODE'' \<notin> fst ` set (BOOK_DB (module_state \<lparr>context' = Some user1\<rparr>)) \<and>
   check_availability (ucs ''CLEAN CODE'') (module_state \<lparr>context' = Some user1\<rparr>) =
     (ucs ''Book '' @ [39] @ ucs ''CLEAN CODE'' @ [39] @ ucs '' not found in catalog.'',
      module_state \<lparr>context' = Some user1\<rparr>) \<and>
   ucs ''Deep Work'' \<in> fst ` set (BOOK_DB (module_state \<lparr>context' = Some user1\<rparr>)) \<and>
   fst (check_availability (ucs ''Deep Work'') (module_state \<lparr>context' = Some user1\<rparr>)) \<noteq>
     ucs ''Book '' @ [39] @ ucs ''Deep Work'' @ [39] @ ucs '' not found in catalog.''"
proof -
  let ?s1 = "module_state \<lparr>context' = Some user1\<rparr>"
  have absent: "ucs ''CLEAN CODE'' \<notin> fst ` set (BOOK_DB ?s1)"
    by (simp add: BOOK_DB_module_state BOOK_DB_literal_def ucs_def)
  have present: "ucs ''Deep Work'' \<in> fst ` set (BOOK_DB ?s1)"
    by (simp add: BOOK_DB_module_state BOOK_DB_literal_def ucs_def)
  from check_availability_exact_title_match
         [of ?s1 user1 "ucs ''M001''" "ucs ''CLEAN CODE''" "\<lambda>t. t"]
       user1_registered absent
  have "check_availability (ucs ''CLEAN CODE'') ?s1 =
     (ucs ''Book '' @ [39] @ ucs ''CLEAN CODE'' @ [39] @ ucs '' not found in catalog.'', ?s1)"
    by blast
  moreover
  from check_availability_exact_title_match
         [of ?s1 user1 "ucs ''M001''" "ucs ''Deep Work''" "\<lambda>t. t"]
       user1_registered present
  have "fst (check_availability (ucs ''Deep Work'') ?s1) \<noteq>
     ucs ''Book '' @ [39] @ ucs ''Deep Work'' @ [39] @ ucs '' not found in catalog.''"
    by blast
  ultimately show ?thesis using absent present by (intro conjI)
qed


section \<open>Searching for white space\<close>

text \<open>
  Claim C10. A query made of white space only, the empty query included, is trimmed to
  the empty text, which is part of every title. With a catalog that is not empty
  \<open>search_book\<close> then returns \<open>Found: \<close> followed by every title in catalog order; for the
  module's catalog that is the list of its five titles.
\<close>

theorem search_book_whitespace_lists_catalog:
  "(list_all isspace query \<and> BOOK_DB s \<noteq> [] \<longrightarrow>
      search_book ulower query s =
        (ucs ''Found: '' @ str_join (ucs '', '') (map fst (BOOK_DB s)), s)) \<and>
   (list_all isspace query \<longrightarrow>
      search_book ulower query (module_state w) =
        (ucs ''Found: Clean Code, Atomic Habits, The Pragmatic Programmer, Deep Work, '' @
         ucs ''Harry Potter and the Sorcerer'' @ [39] @ ucs ''s Stone'', module_state w))"
proof (intro conjI impI)
  assume "list_all isspace query \<and> BOOK_DB s \<noteq> []"
  then show "search_book ulower query s =
        (ucs ''Found: '' @ str_join (ucs '', '') (map fst (BOOK_DB s)), s)"
    by (simp add: search_book_whitespace)
next
  assume ws: "list_all isspace query"
  have "BOOK_DB (module_state w) \<noteq> []"
    by (simp add: BOOK_DB_module_state BOOK_DB_literal_not_Nil)
  with ws have "search_book ulower query (module_state w) =
     (ucs ''Found: '' @ str_join (ucs '', '') (map fst (BOOK_DB (module_state w))),
      module_state w)"
    by (rule search_book_whitespace)
  then show "search_book ulower query (module_state w) =
        (ucs ''Found: Clean Code, Atomic Habits, The Pragmatic Programmer, Deep Work, '' @
         ucs ''Harry Potter and the Sorcerer'' @ [39] @ ucs ''s Stone'', module_state w)"
    by (simp only: BOOK_DB_module_state str_join_BOOK_DB_literal)
qed

theorem search_book_whitespace_lists_catalog_witness:
  "list_all isspace [32, 9, 10, 160, 8195] \<and>
   search_book (\<lambda>t. t) [32, 9, 10, 160, 8195] (module_state \<lparr>context' = Some guest\<rparr>) =
     (ucs ''Found: Clean Code, Atomic Habits, The Pragmatic Programmer, Deep Work, '' @
      ucs ''Harry Potter and the Sorcerer'' @ [39] @ ucs ''s Stone'',
      module_state \<lparr>context' = Some guest\<rparr>) \<and>
   search_book (\<lambda>t. t) [] (module_state \<lparr>context' = Some guest\<rparr>) =
     (ucs ''Found: Clean Code, Atomic Habits, The Pragmatic Programmer, Deep Work, '' @
      ucs ''Harry Potter and the Sorcerer'' @ [39] @ ucs ''s Stone'',
      module_state \<lparr>context' = Some guest\<rparr>)"
  using search_book_whitespace_lists_catalog
      [of "[32, 9, 10, 160, 8195]" "module_state \<lparr>context' = Some guest\<rparr>" "\<lambda>t. t"
          "\<lparr>context' = Some guest\<rparr>"]
    search_book_whitespace_lists_catalog
      [of "[]" "module_state \<lparr>context' = Some guest\<rparr>" "\<lambda>t. t" "\<lparr>context' = Some guest\<rparr>"]
    whitespace_sample
  by simp


section \<open>The handlers only read\<close>

lemma search_book_state: "snd (search_book ulower query s) = s"
  by (simp add: search_book_def Let_def)

lemma check_availability_state: "snd (check_availability book_title s) = s"
  by (simp add: check_availability_def split: option.split)

lemma get_library_timings_state: "snd (get_library_timings s) = s"
  by (simp add: get_library_timings_def)

text \<open>
  Claim C7. Each of the three handlers returns the state it was given (\<open>BOOK_DB\<close>,
  \<open>MEMBERS\<close> and the context object are unchanged), and calling it again with the same
  arguments on the state it returned gives the same result and the same state.
\<close>

theorem tool_handlers_are_pure_reads:
  "snd (search_book ulower query s) = s \<and>
   snd (check_availability book_title s) = s \<and>
   snd (get_library_timings s) = s \<and>
   search_book ulower query (snd (search_book ulower query s)) = search_book ulower query s \<and>
   check_availability book_title (snd (check_availability book_title s)) =
     check_availability book_title s \<and>
   get_library_timings (snd (get_library_timings s)) = get_library_timings s"
  by (simp only: search_book_state check_availability_state get_library_timings_state)

theorem tool_handlers_are_pure_reads_witness:
  "snd (search_book (\<lambda>t. t) (ucs ''HA'') (module_state \<lparr>context' = Some user1\<rparr>)) =
     module_state \<lparr>context' = Some user1\<rparr> \<and>
   search_book (\<lambda>t. t) (ucs ''HA'')
     (snd (search_book (\<lambda>t. t) (ucs ''HA'') (module_state \<lparr>context' = Some user1\<rparr>))) =
     (ucs ''Found: Atomic Habits, Harry Potter and the Sorcerer'' @ [39] @ ucs ''s Stone'',
      module_state \<lparr>context' = Some user1\<rparr>)"
  using tool_handlers_are_pure_reads
      [of "\<lambda>t. t" "ucs ''HA''" "module_state \<lparr>context' = Some user1\<rparr>"]
    search_book_two [of "\<lambda>t. t" "\<lparr>context' = Some user1\<rparr>"]
  by simp


section \<open>The instruction text\<close>

text \<open>
  Claim C6. Two contexts with the same name get the same instruction text, whatever their
  \<open>member_id\<close>s are. The text is \<open>Hello\<close>, the display name (the name, or \<open>Library user\<close>
  when the name is empty or the context is absent) and a fixed body, so the name is the
  only thing it takes from the context.
\<close>

theorem dynamic_instructions_ignore_member_id:
  "dynamic_instructions (Some \<lparr>context' = Some \<lparr>name = n, member_id = m1\<rparr>\<rparr>) agent =
     dynamic_instructions (Some \<lparr>context' = Some \<lparr>name = n, member_id = m2\<rparr>\<rparr>) agent \<and>
   dynamic_instructions (Some \<lparr>context' = Some \<lparr>name = n, member_id = m1\<rparr>\<rparr>) agent =
     ucs ''Hello '' @ (if n = [] then ucs ''Library user'' else n) @ instructions_body \<and>
   dynamic_instructions (Some \<lparr>context' = None\<rparr>) agent =
     ucs ''Hello '' @ ucs ''Library user'' @ instructions_body \<and>
   dynamic_instructions None agent = ucs ''Hello '' @ ucs ''Library user'' @ instructions_body"
  by (simp add: dynamic_instructions_def)

theorem dynamic_instructions_ignore_member_id_witness:
  "dynamic_instructions
     (Some \<lparr>context' = Some \<lparr>name = ucs ''Muhammad Annas'', member_id = Some (ucs ''M001'')\<rparr>\<rparr>) () =
   dynamic_instructions
     (Some \<lparr>context' = Some \<lparr>name = ucs ''Muhammad Annas'', member_id = None\<rparr>\<rparr>) () \<and>
   dynamic_instructions
     (Some \<lparr>context' = Some \<lparr>name = ucs ''Muhammad Annas'', member_id = Some (ucs ''M001'')\<rparr>\<rparr>) () =
   ucs ''Hello Muhammad Annas'' @ instructions_body"
proof -
  let ?member = "Some \<lparr>context' = Some \<lparr>name = ucs ''Muhammad Annas'',
    member_id = Some (ucs ''M001'')\<rparr>\<rparr>"
  let ?visitor = "Some \<lparr>context' = Some \<lparr>name = ucs ''Muhammad Annas'', member_id = None\<rparr>\<rparr>"
  note inst = dynamic_instructions_ignore_member_id
      [of "ucs ''Muhammad Annas''" "Some (ucs ''M001'')" "()" None]
  from inst have same: "dynamic_instructions ?member () = dynamic_instructions ?visitor ()"
    by (rule conjunct1)
  from inst have "dynamic_instructions ?member () =
    ucs ''Hello '' @ (if ucs ''Muhammad Annas'' = [] then ucs ''Library user''
                      else ucs ''Muhammad Annas'') @ instructions_body"
    by blast
  then have "dynamic_instructions ?member () = ucs ''Hello Muhammad Annas'' @ instructions_body"
    by (simp add: ucs_def)
  with same show ?thesis by (intro conjI)
qed


section \<open>The guardrail's verdict\<close>

lemma guardrail_readable:
  assumes "Runner_run input (context' wrapper) = Inr r"
    and "getattr (final_output r) ''is_library_query'' (PyBool False) = Inr v"
  shows "library_input_guardrail Runner_run wrapper agent input =
           Inr \<lparr>output_info = final_output r, tripwire_triggered = (\<not> bool_of v)\<rparr>"
  using assms by (simp add: library_input_guardrail_def)

lemma guardrail_caught:
  assumes "Runner_run input (context' wrapper) = Inr r"
    and "getattr (final_output r) ''is_library_query'' (PyBool False) = Inl e"
    and "caught_by_except_Exception e"
  shows "library_input_guardrail Runner_run wrapper agent input =
           Inr \<lparr>output_info = final_output r, tripwire_triggered = False\<rparr>"
  using assms by (simp add: library_input_guardrail_def)

lemma guardrail_uncaught:
  assumes "Runner_run input (context' wrapper) = Inr r"
    and "getattr (final_output r) ''is_library_query'' (PyBool False) = Inl e"
    and "\<not> caught_by_except_Exception e"
  shows "library_input_guardrail Runner_run wrapper agent input = Inl e"
  using assms by (simp add: library_input_guardrail_def)

lemma guardrail_run_raises:
  assumes "Runner_run input (context' wrapper) = Inl e"
  shows "library_input_guardrail Runner_run wrapper agent input = Inl e"
  using assms by (simp add: library_input_guardrail_def)

lemma getattr_GuardrailOutput:
  "getattr (GuardrailOutput b reason) ''is_library_query'' dflt = Inr (PyBool b)"
  by (simp add: getattr_def GuardrailOutput_def)

text \<open>
  Claim C3. The claim asks for a guardrail that treats a failed classification as
  in-domain, and the \<open>except\<close> branch with its \<open>fallback\<close> comment aims at that. The
  classifier run is called before the \<open>try\<close>, though: whatever exception it raises leaves
  \<open>library_input_guardrail\<close>, so the guardrail returns no verdict at all, neither a tripwire
  nor a pass.
\<close>

theorem guardrail_raises_when_classifier_call_fails:
  "Runner_run input (context' wrapper) = Inl e \<longrightarrow>
     library_input_guardrail Runner_run wrapper agent input = Inl e"
  using guardrail_run_raises [of Runner_run input wrapper e agent] by blast

theorem guardrail_raises_when_classifier_call_fails_witness:
  "library_input_guardrail (\<lambda>i c. Inl (ExceptionSubclass ''APIConnectionError''))
     \<lparr>context' = Some guest\<rparr> () (ucs ''What are the library timings?'') =
   Inl (ExceptionSubclass ''APIConnectionError'')"
  using guardrail_raises_when_classifier_call_fails
      [of "\<lambda>i c. Inl (ExceptionSubclass ''APIConnectionError'')"
          "ucs ''What are the library timings?''" "\<lparr>context' = Some guest\<rparr>"
          "ExceptionSubclass ''APIConnectionError''" "()"]
  by simp

text \<open>
  Claim C8. When the classifier run returns and \<open>is_library_query\<close> reads as a value
  that is not truthy, the tripwire is triggered; this is so in particular when the field
  is missing, is \<open>None\<close> or is \<open>False\<close>. Conversely, when the guardrail returns with the
  tripwire not triggered, then either the field read as a truthy value or reading it
  raised an exception that \<open>except Exception\<close> caught: the fallback has no other cause.
\<close>

theorem guardrail_trips_without_truthy_flag:
  "(Runner_run input (context' wrapper) = Inr r \<and>
    getattr (final_output r) ''is_library_query'' (PyBool False) = Inr v \<and> \<not> bool_of v \<longrightarrow>
      library_input_guardrail Runner_run wrapper agent input =
        Inr \<lparr>output_info = final_output r, tripwire_triggered = True\<rparr>) \<and>
   (Runner_run input (context' wrapper) = Inr r \<and> final_output r = PyObject attrs \<and>
    (map_of attrs ''is_library_query'' = None \<or>
     map_of attrs ''is_library_query'' = Some (Inr PyNone) \<or>
     map_of attrs ''is_library_query'' = Some (Inr (PyBool False))) \<longrightarrow>
      library_input_guardrail Runner_run wrapper agent input =
        Inr \<lparr>output_info = final_output r, tripwire_triggered = True\<rparr>) \<and>
   (library_input_guardrail Runner_run wrapper agent input = Inr g \<and>
    \<not> tripwire_triggered g \<longrightarrow>
      (\<exists>r. Runner_run input (context' wrapper) = Inr r \<and>
           ((\<exists>v. getattr (final_output r) ''is_library_query'' (PyBool False) = Inr v \<and>
                 bool_of v) \<or>
            (\<exists>e. getattr (final_output r) ''is_library_query'' (PyBool False) = Inl e \<and>
                 caught_by_except_Exception e))))"
proof (intro conjI impI)
  assume "Runner_run input (context' wrapper) = Inr r \<and>
    getattr (final_output r) ''is_library_query'' (PyBool False) = Inr v \<and> \<not> bool_of v"
  then show "library_input_guardrail Runner_run wrapper agent input =
        Inr \<lparr>output_info = final_output r, tripwire_triggered = True\<rparr>"
    using guardrail_readable [of Runner_run input wrapper r v agent] by simp
next
  assume a: "Runner_run input (context' wrapper) = Inr r \<and> final_output r = PyObject attrs \<and>
    (map_of attrs ''is_library_query'' = None \<or>
     map_of attrs ''is_library_query'' = Some (Inr PyNone) \<or>
     map_of attrs ''is_library_query'' = Some (Inr (PyBool False)))"
  then have "\<exists>v. getattr (final_output r) ''is_library_query'' (PyBool False) = Inr v \<and>
    \<not> bool_of v"
    by (auto simp: getattr_def)
  then obtain v where "getattr (final_output r) ''is_library_query'' (PyBool False) = Inr v"
    and "\<not> bool_of v"
    by blast
  with a show "library_input_guardrail Runner_run wrapper agent input =
        Inr \<lparr>output_info = final_output r, tripwire_triggered = True\<rparr>"
    using guardrail_readable [of Runner_run input wrapper r v agent] by simp
next
  assume b: "library_input_guardrail Runner_run wrapper agent input = Inr g \<and>
    \<not> tripwire_triggered g"
  show "\<exists>r. Runner_run input (context' wrapper) = Inr r \<and>
           ((\<exists>v. getattr (final_output r) ''is_library_query'' (PyBool False) = Inr v \<and>
                 bool_of v) \<or>
            (\<exists>e. getattr (final_output r) ''is_library_query'' (PyBool False) = Inl e \<and>
                 caught_by_except_Exception e))"
  proof (cases "Runner_run input (context' wrapper)")
    case (Inl e)
    with b guardrail_run_raises [of Runner_run input wrapper e agent] show ?thesis
      by simp
  next
    case (Inr r)
    show ?thesis
    proof (cases "getattr (final_output r) ''is_library_query'' (PyBool False)")
      case (Inl e)
      show ?thesis
      proof (cases "caught_by_except_Exception e")
        case True
        with Inr Inl show ?thesis by simp
      next
        case False
        with b Inr Inl guardrail_uncaught [of Runner_run input wrapper r e agent]
        show ?thesis by simp
      qed
    next
      case (Inr v)
      with b \<open>Runner_run input (context' wrapper) = Inr r\<close>
        guardrail_readable [of Runner_run input wrapper r v agent]
      have "bool_of v" by auto
      with Inr \<open>Runner_run input (context' wrapper) = Inr r\<close> show ?thesis by simp
    qed
  qed
qed

theorem guardrail_trips_without_truthy_flag_witness:
  "\<not> bool_of (PyBool False) \<and>
   library_input_guardrail
     (\<lambda>i c. Inr \<lparr>final_output = GuardrailOutput False (Some (ucs ''weather''))\<rparr>)
     \<lparr>context' = Some guest\<rparr> () (ucs ''What is the weather in Karachi today?'') =
   Inr \<lparr>output_info = GuardrailOutput False (Some (ucs ''weather'')),
        tripwire_triggered = True\<rparr>"
proof -
  let ?out = "GuardrailOutput False (Some (ucs ''weather''))"
  have falsy: "\<not> bool_of (PyBool False)"
    by simp
  have read: "getattr (final_output \<lparr>final_output = ?out\<rparr>) ''is_library_query'' (PyBool False) =
    Inr (PyBool False)"
    by (simp add: getattr_GuardrailOutput)
  from guardrail_trips_without_truthy_flag
         [of "\<lambda>i c. Inr \<lparr>final_output = ?out\<rparr>" "ucs ''What is the weather in Karachi today?''"
             "\<lparr>context' = Some guest\<rparr>" "\<lparr>final_output = ?out\<rparr>" "PyBool False" "()"]
       falsy read
  have "library_input_guardrail (\<lambda>i c. Inr \<lparr>final_output = ?out\<rparr>)
     \<lparr>context' = Some guest\<rparr> () (ucs ''What is the weather in Karachi today?'') =
   Inr \<lparr>output_info = ?out, tripwire_triggered = True\<rparr>"
    by simp
  with falsy show ?thesis by (intro conjI)
qed

end
